theory Spec2Isabelle
  imports
    Main
    "HOL-Library.Char_ord"
    "HOL-Library.List_Lexorder"
    "HOL-Library.Product_Lexorder"
    "HOL-Library.Sublist"
    "HOL-Library.Multiset"
begin

section \<open>Python strings\<close>

text \<open>
  A Python \<open>str\<close> is modelled as a \<open>string\<close> whose characters stand for the code points
  below 256. \<open>str.strip()\<close> removes leading and trailing whitespace; among these code
  points Python counts as whitespace exactly 0x09 to 0x0D, 0x1C to 0x1F, 0x20, 0x85 and
  0xA0. String comparison is lexicographic on code points, which is the order that
  \<open>Char_ord\<close> and \<open>List_Lexorder\<close> give to \<open>string\<close>.
\<close>

definition isspace :: "char \<Rightarrow> bool" where
  "isspace c \<longleftrightarrow>
     c \<in> {CHR 0x09, CHR 0x0A, CHR 0x0B, CHR 0x0C, CHR 0x0D,
          CHR 0x1C, CHR 0x1D, CHR 0x1E, CHR 0x1F, CHR 0x20, CHR 0x85, CHR 0xA0}"

definition lstrip :: "string \<Rightarrow> string" where
  "lstrip s = dropWhile isspace s"

definition rstrip :: "string \<Rightarrow> string" where
  "rstrip s = rev (dropWhile isspace (rev s))"

definition strip :: "string \<Rightarrow> string" where
  "strip s = rstrip (lstrip s)"

definition NL :: string where
  "NL = [CHR 0x0A]"

section \<open>Data model\<close>

text \<open>
  The two JSON files hold lists of objects with the keys below; every value is read as
  a string. The embedding encoder and the cosine similarity are library functions: they
  are fields of the application record, with an arbitrary vector type \<open>'e\<close> and a
  linearly ordered score type \<open>'s\<close>.
\<close>

record course =
  course_name :: string
  course_description :: string
  course_instructor :: string
  course_duration :: string

record instructor =
  instructor_name :: string
  instructor_bio :: string

record ('e, 's) app =
  encode :: "string \<Rightarrow> 'e"
  cosine_similarity :: "'e \<Rightarrow> 'e \<Rightarrow> 's"
  courses :: "course list"
  instructors :: "instructor list"

record message =
  role :: string
  content :: string

record translation_record =
  original :: string
  translation :: string
  language :: string

text \<open>
  The session is a dictionary in which the keys \<open>conversations\<close> and \<open>translations\<close> may
  be absent (\<open>None\<close>); each holds a dictionary from conversation identifier to a list.
\<close>

record session =
  session_conversations :: "(string \<rightharpoonup> message list) option"
  session_translations :: "(string \<rightharpoonup> translation_record list) option"

record QueryRequest =
  q_query :: string
  q_conversationId :: "string option"

record TranslateRequest =
  t_text :: string
  t_target_lang :: string
  t_conversationId :: "string option"

text \<open>
  What one request gets from outside: the answer of the generative model to a prompt
  (\<open>Inl\<close> the text of the exception it raised, \<open>Inr\<close> the text of its response) and
  the identifier that \<open>uuid.uuid4()\<close> draws.
\<close>

record io =
  generate_content :: "string \<Rightarrow> string + string"
  uuid4 :: string

datatype call = Retrieve string | Generate string

record http_response =
  status_code :: nat
  body :: "(string \<times> string) list"

definition ok :: "(string \<times> string) list \<Rightarrow> http_response" where
  "ok b = \<lparr>status_code = 200, body = b\<rparr>"

section \<open>Precomputed embeddings\<close>

text \<open>
  A dictionary that is iterated is an association list in insertion order; storing under
  a key that is present replaces the value and keeps the key's position.
\<close>

fun dict_set :: "('k \<times> 'v) list \<Rightarrow> 'k \<Rightarrow> 'v \<Rightarrow> ('k \<times> 'v) list" where
  "dict_set [] k v = [(k, v)]"
| "dict_set ((k', v') # kvs) k v =
     (if k' = k then (k', v) # kvs else (k', v') # dict_set kvs k v)"

definition course_embeddings :: "('e, 's) app \<Rightarrow> (string \<times> 'e) list" where
  "course_embeddings a =
     foldl (\<lambda>d c. dict_set d (course_name c)
                     (encode a (course_name c @ '' '' @ course_description c)))
           [] (courses a)"

definition instructor_embeddings :: "('e, 's) app \<Rightarrow> (string \<times> 'e) list" where
  "instructor_embeddings a =
     foldl (\<lambda>d i. dict_set d (instructor_name i)
                     (encode a (instructor_name i @ '' '' @ instructor_bio i)))
           [] (instructors a)"

section \<open>Retrieval\<close>

text \<open>
  \<open>sorted(xs, reverse=True)\<close> reverses the list, sorts it with a stable ascending sort
  and reverses the result. The elements are pairs \<open>(similarity, name)\<close>, compared as
  Python compares tuples: by the first component, then by the second.
\<close>

definition sorted_reverse :: "('a::linorder) list \<Rightarrow> 'a list" where
  "sorted_reverse xs = rev (sort (rev xs))"

definition course_scores :: "('e, 's) app \<Rightarrow> string \<Rightarrow> ('s \<times> string) list" where
  "course_scores a query =
     (let query_embedding = encode a query
      in map (\<lambda>(name, embedding). (cosine_similarity a query_embedding embedding, name))
             (course_embeddings a))"

definition instructor_scores :: "('e, 's) app \<Rightarrow> string \<Rightarrow> ('s \<times> string) list" where
  "instructor_scores a query =
     (let query_embedding = encode a query
      in map (\<lambda>(name, embedding). (cosine_similarity a query_embedding embedding, name))
             (instructor_embeddings a))"

definition relevant_courses :: "('e, 's::linorder) app \<Rightarrow> string \<Rightarrow> string list" where
  "relevant_courses a query = map snd (take 3 (sorted_reverse (course_scores a query)))"

definition relevant_instructors :: "('e, 's::linorder) app \<Rightarrow> string \<Rightarrow> string list" where
  "relevant_instructors a query =
     map snd (take 3 (sorted_reverse (instructor_scores a query)))"

definition retrieve_relevant_info ::
  "('e, 's::linorder) app \<Rightarrow> string \<Rightarrow> course list \<times> instructor list" where
  "retrieve_relevant_info a query =
     (let matched_courses =
            filter (\<lambda>c. course_name c \<in> set (relevant_courses a query)) (courses a);
          matched_instructors =
            filter (\<lambda>i. instructor_name i \<in> set (relevant_instructors a query))
                   (instructors a)
      in (matched_courses, matched_instructors))"

section \<open>Context and prompt\<close>

definition format_context :: "course list \<Rightarrow> instructor list \<Rightarrow> string" where
  "format_context cs is =
     (let context = [];
          context =
            (if cs \<noteq> [] then
               foldl (\<lambda>ctx c. ctx @ ''- '' @ course_name c @ '': '' @ course_description c
                                @ '' (Instructor: '' @ course_instructor c
                                @ '', Duration: '' @ course_duration c @ '')'' @ NL)
                     (context @ ''Relevant Courses:'' @ NL) cs
             else context);
          context =
            (if is \<noteq> [] then
               foldl (\<lambda>ctx i. ctx @ ''- '' @ instructor_name i @ '': '' @ instructor_bio i @ NL)
                     (context @ NL @ ''Relevant Instructors:'' @ NL) is
             else context)
      in strip context)"

definition build_prompt_with_context :: "string \<Rightarrow> string \<Rightarrow> message list \<Rightarrow> string" where
  "build_prompt_with_context question context conversation_history =
     (let prompt = NL @ ''    Context information:'' @ NL @ ''    '' @ context @ NL @ NL
                   @ ''    Conversation history:'' @ NL @ ''    '';
          prompt = foldl (\<lambda>p msg. p @ role msg @ '': '' @ content msg @ NL)
                         prompt (drop 1 conversation_history);
          prompt = prompt @ NL @ ''    Current question: '' @ question @ NL @ ''    '' @ NL
                   @ ''    Please provide a helpful response based on the context and conversation history.''
                   @ NL @ ''    ''
      in prompt)"

section \<open>Request handlers\<close>

text \<open>\<open>data.conversationId or str(uuid.uuid4())\<close>: \<open>None\<close> and the empty string are falsy.\<close>

definition conversation_id_or :: "string option \<Rightarrow> string \<Rightarrow> string" where
  "conversation_id_or cid fresh =
     (case cid of None \<Rightarrow> fresh | Some c \<Rightarrow> if c = [] then fresh else c)"

definition system_message :: message where
  "system_message = \<lparr>role = ''system'', content = ''You are a helpful course enquiry assistant.''\<rparr>"

text \<open>
  A handler returns the response, the session as the request leaves it, and the calls
  it made to the retrieval step and to the generative model, in order. Every modelled
  operation in the handlers is total, so the outer \<open>except\<close> clause, which turns any other
  exception into status 500, has no source of exceptions here.
\<close>

definition query ::
  "('e, 's::linorder) app \<Rightarrow> io \<Rightarrow> session \<Rightarrow> QueryRequest
     \<Rightarrow> http_response \<times> session \<times> call list" where
  "query a w sess data =
     (let question = strip (q_query data);
          conversation_id = conversation_id_or (q_conversationId data) (uuid4 w)
      in if question = [] then
           (ok [(''response'', ''Please enter a valid question.'')], sess, [])
         else
           let convs = (case session_conversations sess of None \<Rightarrow> Map.empty | Some m \<Rightarrow> m);
               history = (case convs conversation_id of
                            None \<Rightarrow> [system_message] | Some h \<Rightarrow> h);
               history = history @ [\<lparr>role = ''user'', content = question\<rparr>];
               convs = convs(conversation_id \<mapsto> history);
               (cs, is) = retrieve_relevant_info a question;
               context = format_context cs is;
               prompt = build_prompt_with_context question context history;
               calls = [Retrieve question, Generate prompt]
           in case generate_content w prompt of
                Inr text \<Rightarrow>
                  let response = strip text;
                      history = history @ [\<lparr>role = ''assistant'', content = response\<rparr>]
                  in (ok [(''response'', response)],
                      sess\<lparr>session_conversations := Some (convs(conversation_id \<mapsto> history))\<rparr>,
                      calls)
              | Inl e \<Rightarrow>
                  (ok [(''response'',
                        ''I couldn't process that request. Please try again. (Error: ''
                        @ e @ '')'')],
                   sess\<lparr>session_conversations := Some convs\<rparr>,
                   calls))"

definition translate_prompt :: "string \<Rightarrow> string \<Rightarrow> string" where
  "translate_prompt target_lang text =
     NL @ ''        Translate the following English text to '' @ target_lang @ ''. '' @ NL
     @ ''        Keep the meaning accurate but make the translation sound natural in the target language.''
     @ NL @ ''        '' @ NL
     @ ''        Text to translate: '' @ text @ NL @ ''        ''"

definition translate ::
  "io \<Rightarrow> session \<Rightarrow> TranslateRequest \<Rightarrow> http_response \<times> session \<times> call list" where
  "translate w sess data =
     (let text = strip (t_text data);
          target_lang = t_target_lang data;
          conversation_id = conversation_id_or (t_conversationId data) (uuid4 w)
      in if text = [] then
           (ok [(''translation'', ''No text to translate'')], sess, [])
         else
           let prompt = translate_prompt target_lang text
           in case generate_content w prompt of
                Inr t \<Rightarrow>
                  let translation = strip t;
                      trs = (case session_translations sess of None \<Rightarrow> Map.empty | Some m \<Rightarrow> m);
                      lst = (case trs conversation_id of None \<Rightarrow> [] | Some l \<Rightarrow> l);
                      lst = lst @ [\<lparr>original = text, translation = translation,
                                    language = target_lang\<rparr>]
                  in (ok [(''translation'', translation)],
                      sess\<lparr>session_translations := Some (trs(conversation_id \<mapsto> lst))\<rparr>,
                      [Generate prompt])
              | Inl e \<Rightarrow>
                  (ok [(''translation'', ''Translation failed: '' @ e)], sess,
                   [Generate prompt]))"

section \<open>Notions used in the statements\<close>

text \<open>The history stored for a conversation identifier, if there is one.\<close>

definition history_of :: "session \<Rightarrow> string \<Rightarrow> message list option" where
  "history_of sess cid =
     (case session_conversations sess of None \<Rightarrow> None | Some m \<Rightarrow> m cid)"

definition translations_of :: "session \<Rightarrow> string \<Rightarrow> translation_record list option" where
  "translations_of sess cid =
     (case session_translations sess of None \<Rightarrow> None | Some m \<Rightarrow> m cid)"

text \<open>
  The history a request to \<open>/api/query\<close> starts from (the stored one, or the system
  message alone for a new conversation), and the prompt that request sends.
\<close>

definition query_history :: "session \<Rightarrow> string \<Rightarrow> message list" where
  "query_history sess cid =
     (case history_of sess cid of None \<Rightarrow> [system_message] | Some h \<Rightarrow> h)"

definition query_prompt :: "('e, 's::linorder) app \<Rightarrow> session \<Rightarrow> string \<Rightarrow> string \<Rightarrow> string" where
  "query_prompt a sess cid question =
     build_prompt_with_context question
       (format_context (fst (retrieve_relevant_info a question))
                       (snd (retrieve_relevant_info a question)))
       (query_history sess cid @ [\<lparr>role = ''user'', content = question\<rparr>])"

text \<open>
  A name is among the top three of a list of scores when it has an entry that fewer
  than three entries beat by similarity.
\<close>

definition in_top3 :: "('s::linorder \<times> string) list \<Rightarrow> string \<Rightarrow> bool" where
  "in_top3 sc n \<longleftrightarrow>
     list_ex (\<lambda>(s, n'). n' = n \<and> length (filter (\<lambda>e. s < fst e) sc) < 3) sc"

text \<open>
  The ranking that breaks ties by insertion order: a stable descending sort on the
  similarity alone, which is \<open>sorted(xs, key=lambda t: t[0], reverse=True)\<close>.
\<close>

definition stable_score_ranking :: "('s::linorder \<times> string) list \<Rightarrow> ('s \<times> string) list" where
  "stable_score_ranking xs = rev (sort_key fst (rev xs))"

section \<open>Example data\<close>

text \<open>
  A dataset of five courses and two instructors, with the text itself as embedding and
  the number of characters shared with the query as similarity; a session with no key;
  a generative model that fails and two that answer.
\<close>

definition example_app :: "(string, int) app" where
  "example_app =
     \<lparr>encode = (\<lambda>s. s),
      cosine_similarity = (\<lambda>q e. int (length (filter (\<lambda>c. c \<in> set q) e))),
      courses =
        [\<lparr>course_name = ''Algebra'', course_description = ''groups'',
          course_instructor = ''Ada'', course_duration = ''4 weeks''\<rparr>,
         \<lparr>course_name = ''Biology'', course_description = ''cells'',
          course_instructor = ''Bob'', course_duration = ''6 weeks''\<rparr>,
         \<lparr>course_name = ''Chemistry'', course_description = ''atoms'',
          course_instructor = ''Bob'', course_duration = ''5 weeks''\<rparr>,
         \<lparr>course_name = ''Drawing'', course_description = ''ink'',
          course_instructor = ''Ada'', course_duration = ''2 weeks''\<rparr>,
         \<lparr>course_name = ''History'', course_description = ''kings'',
          course_instructor = ''Ada'', course_duration = ''8 weeks''\<rparr>],
      instructors =
        [\<lparr>instructor_name = ''Ada'', instructor_bio = ''algebraist''\<rparr>,
         \<lparr>instructor_name = ''Bob'', instructor_bio = ''biologist''\<rparr>]\<rparr>"

definition empty_session :: session where
  "empty_session = \<lparr>session_conversations = None, session_translations = None\<rparr>"

definition failing_io :: io where
  "failing_io = \<lparr>generate_content = (\<lambda>p. Inl ''quota''), uuid4 = ''id-1''\<rparr>"

definition answering_io :: io where
  "answering_io = \<lparr>generate_content = (\<lambda>p. Inr '' fine ''), uuid4 = ''id-1''\<rparr>"

definition second_io :: io where
  "second_io = \<lparr>generate_content = (\<lambda>p. Inr ''sure''), uuid4 = ''id-2''\<rparr>"

definition plain_course :: "string \<Rightarrow> course" where
  "plain_course n =
     \<lparr>course_name = n, course_description = ''d'', course_instructor = ''i'',
      course_duration = ''1''\<rparr>"

text \<open>Four course records under one name, and four courses whose similarities are tied.\<close>

definition duplicate_app :: "(string, int) app" where
  "duplicate_app =
     \<lparr>encode = (\<lambda>s. s), cosine_similarity = (\<lambda>q e. 0),
      courses = [plain_course ''X'', plain_course ''X'', plain_course ''X'', plain_course ''X''],
      instructors = []\<rparr>"

definition tied_app :: "(string, int) app" where
  "tied_app =
     \<lparr>encode = (\<lambda>s. s), cosine_similarity = (\<lambda>q e. 0),
      courses = [plain_course ''A'', plain_course ''B'', plain_course ''C'', plain_course ''D''],
      instructors = []\<rparr>"

definition first_request :: "string option \<Rightarrow> QueryRequest" where
  "first_request cid = \<lparr>q_query = ''first'', q_conversationId = cid\<rparr>"

definition second_request :: "string option \<Rightarrow> QueryRequest" where
  "second_request cid = \<lparr>q_query = ''second'', q_conversationId = cid\<rparr>"

definition session_after_first :: "string option \<Rightarrow> session" where
  "session_after_first cid =
     fst (snd (query example_app answering_io empty_session (first_request cid)))"

definition session_after_second :: "string option \<Rightarrow> session" where
  "session_after_second cid =
     fst (snd (query example_app second_io (session_after_first cid) (second_request cid)))"

section \<open>Auxiliary facts\<close>

subsection \<open>Stripping\<close>

lemma strip_empty_iff: "strip s = [] \<longleftrightarrow> (\<forall>c\<in>set s. isspace c)"
proof
  assume "strip s = []"
  then have all: "\<forall>c\<in>set (dropWhile isspace s). isspace c"
    by (simp add: strip_def rstrip_def lstrip_def)
  have "dropWhile isspace s = []"
  proof (rule ccontr)
    assume ne: "dropWhile isspace s \<noteq> []"
    then have "\<not> isspace (hd (dropWhile isspace s))"
      by (rule hd_dropWhile)
    moreover from ne have "hd (dropWhile isspace s) \<in> set (dropWhile isspace s)"
      by simp
    ultimately show False using all by blast
  qed
  then show "\<forall>c\<in>set s. isspace c"
    by simp
next
  assume "\<forall>c\<in>set s. isspace c"
  then show "strip s = []"
    by (auto simp: strip_def rstrip_def lstrip_def dest: set_dropWhileD)
qed

subsection \<open>Dictionaries\<close>

lemma map_fst_dict_set:
  "map fst (dict_set d k v) = (if k \<in> fst ` set d then map fst d else map fst d @ [k])"
  by (induction d k v rule: dict_set.induct) auto

lemma distinct_dict_set: "distinct (map fst d) \<Longrightarrow> distinct (map fst (dict_set d k v))"
  by (simp add: map_fst_dict_set)

lemma distinct_foldl_dict_set:
  "distinct (map fst d) \<Longrightarrow> distinct (map fst (foldl (\<lambda>d x. dict_set d (k x) (v x)) d xs))"
  by (induction xs arbitrary: d) (simp_all add: distinct_dict_set)

lemma distinct_course_names: "distinct (map snd (course_scores a q))"
proof -
  have "map snd (course_scores a q) = map fst (course_embeddings a)"
    by (simp add: course_scores_def Let_def split_def comp_def)
  then show ?thesis
    by (simp add: course_embeddings_def distinct_foldl_dict_set)
qed

lemma distinct_instructor_names: "distinct (map snd (instructor_scores a q))"
proof -
  have "map snd (instructor_scores a q) = map fst (instructor_embeddings a)"
    by (simp add: instructor_scores_def Let_def split_def comp_def)
  then show ?thesis
    by (simp add: instructor_embeddings_def distinct_foldl_dict_set)
qed

subsection \<open>The descending sort\<close>

lemma set_sorted_reverse: "set (sorted_reverse xs) = set xs"
  by (simp add: sorted_reverse_def)

lemma mset_sorted_reverse: "mset (sorted_reverse xs) = mset xs"
  by (simp add: sorted_reverse_def)

lemma length_sorted_reverse: "length (sorted_reverse xs) = length xs"
  by (simp add: sorted_reverse_def)

lemma sorted_rev_sorted_reverse: "sorted (rev (sorted_reverse xs))"
  by (simp add: sorted_reverse_def)

lemma distinct_sorted_reverse: "distinct (sorted_reverse xs) = distinct xs"
  by (simp add: sorted_reverse_def)

lemma sorted_reverse_mset_eq:
  assumes "mset xs = mset ys"
  shows "sorted_reverse xs = sorted_reverse ys"
proof -
  have "sort (rev xs) = sort (rev ys)"
    by (rule properties_for_sort) (simp_all add: assms)
  then show ?thesis
    by (simp add: sorted_reverse_def)
qed

lemma length_filter_mset_eq:
  "mset xs = mset ys \<Longrightarrow> length (filter P xs) = length (filter P ys)"
  by (metis mset_filter size_mset)

text \<open>An entry among the first three of the ranking is beaten by fewer than three entries.\<close>

lemma take3_beaten_by_few:
  fixes sc :: "('s::linorder \<times> string) list"
  assumes "(s, n) \<in> set (take 3 (sorted_reverse sc))"
  shows "length (filter (\<lambda>e. s < fst e) sc) < 3"
proof -
  let ?r = "sorted_reverse sc"
  let ?P = "\<lambda>e::'s \<times> string. s < fst e"
  have "sorted (rev (drop 3 ?r) @ rev (take 3 ?r))"
    by (metis append_take_drop_id rev_append sorted_rev_sorted_reverse)
  then have le: "\<forall>x\<in>set (drop 3 ?r). \<forall>y\<in>set (take 3 ?r). x \<le> y"
    by (simp add: sorted_append)
  have "filter ?P (drop 3 ?r) = []"
  proof -
    have "\<not> ?P x" if "x \<in> set (drop 3 ?r)" for x
    proof -
      from le that assms have "x \<le> (s, n)" by blast
      then show ?thesis by (auto simp: less_eq_prod_def)
    qed
    then show ?thesis by (simp add: filter_empty_conv)
  qed
  then have "length (filter ?P ?r) = length (filter ?P (take 3 ?r))"
    by (metis append_take_drop_id filter_append append_Nil2)
  also have "\<dots> < length (take 3 ?r)"
    using assms by (intro length_filter_less [of "(s, n)"]) simp_all
  also have "\<dots> \<le> 3" by simp
  finally have "length (filter ?P ?r) < 3" .
  moreover have "length (filter ?P ?r) = length (filter ?P sc)"
    by (rule length_filter_mset_eq) (rule mset_sorted_reverse)
  ultimately show ?thesis by simp
qed

lemma take3_in_top3:
  fixes sc :: "('s::linorder \<times> string) list"
  assumes "n \<in> set (map snd (take 3 (sorted_reverse sc)))"
  shows "in_top3 sc n"
proof -
  from assms obtain s where sn: "(s, n) \<in> set (take 3 (sorted_reverse sc))"
    by auto
  then have "(s, n) \<in> set sc"
    using in_set_takeD [OF sn] by (simp add: set_sorted_reverse)
  with take3_beaten_by_few [OF sn] show ?thesis
    by (auto simp: in_top3_def list_ex_iff)
qed

lemma length_filter_distinct_keys:
  assumes "distinct (map f xs)"
  shows "length (filter (\<lambda>x. f x \<in> set ns) xs) \<le> length ns"
proof -
  let ?ys = "filter (\<lambda>x. f x \<in> set ns) xs"
  have "distinct (map f ?ys)"
    using assms by (simp add: distinct_map_filter)
  then have "length ?ys = card (set (map f ?ys))"
    by (metis distinct_card length_map)
  also have "\<dots> \<le> card (set ns)"
    by (rule card_mono) auto
  also have "\<dots> \<le> length ns"
    by (rule card_length)
  finally show ?thesis .
qed

lemma ties_by_name_general:
  fixes sc :: "('s::linorder \<times> string) list"
  assumes "distinct (map snd sc)" and "i < j" and "j < length sc"
    and "fst (sorted_reverse sc ! i) = fst (sorted_reverse sc ! j)"
  shows "snd (sorted_reverse sc ! j) < snd (sorted_reverse sc ! i)"
proof -
  let ?r = "sorted_reverse sc"
  have len: "j < length ?r"
    using assms(3) by (simp add: length_sorted_reverse)
  have "distinct sc"
    using assms(1) by (simp add: distinct_map)
  then have "distinct ?r"
    by (simp add: distinct_sorted_reverse)
  then have "?r ! i \<noteq> ?r ! j"
    using assms(2) len by (simp add: nth_eq_iff_index_eq)
  moreover have "?r ! j \<le> ?r ! i"
    using sorted_rev_sorted_reverse [of sc] assms(2) len
    by (intro sorted_rev_nth_mono) simp_all
  ultimately have "?r ! j < ?r ! i"
    by (rule order.not_eq_order_implies_strict [OF not_sym])
  then have "fst (?r ! j) < fst (?r ! i) \<or> snd (?r ! j) < snd (?r ! i)"
    by (auto simp: less_prod_def)
  with assms(4) show ?thesis
    by simp
qed

lemma tied_ranking:
  "sorted_reverse (course_scores tied_app ''q'') =
     [(0, ''D''), (0, ''C''), (0, ''B''), (0, ''A'')]"
  by code_simp

subsection \<open>The prompt loop and the query handler\<close>

lemma foldl_append_concat: "foldl (\<lambda>p m. p @ f m) acc xs = acc @ concat (map f xs)"
  by (induction xs arbitrary: acc) simp_all

lemma conversation_id_or_Some: "cid \<noteq> [] \<Longrightarrow> conversation_id_or (Some cid) u = cid"
  by (simp add: conversation_id_or_def)

text \<open>The handler, with the prompt it sends and the history it starts from named.\<close>

lemma query_sent_prompt:
  "query a w sess data =
     (let question = strip (q_query data);
          cid = conversation_id_or (q_conversationId data) (uuid4 w);
          convs = (case session_conversations sess of None \<Rightarrow> Map.empty | Some m \<Rightarrow> m);
          history = query_history sess cid @ [\<lparr>role = ''user'', content = question\<rparr>];
          prompt = query_prompt a sess cid question;
          calls = [Retrieve question, Generate prompt]
      in if question = [] then
           (ok [(''response'', ''Please enter a valid question.'')], sess, [])
         else case generate_content w prompt of
                Inr text \<Rightarrow>
                  (ok [(''response'', strip text)],
                   sess\<lparr>session_conversations :=
                          Some (convs(cid \<mapsto> history @ [\<lparr>role = ''assistant'', content = strip text\<rparr>]))\<rparr>,
                   calls)
              | Inl e \<Rightarrow>
                  (ok [(''response'',
                        ''I couldn't process that request. Please try again. (Error: ''
                        @ e @ '')'')],
                   sess\<lparr>session_conversations := Some (convs(cid \<mapsto> history))\<rparr>,
                   calls))"
  by (simp add: query_def query_prompt_def query_history_def history_of_def Let_def
           split: option.splits sum.splits prod.splits)

lemma history_after_success:
  assumes "strip (q_query d) \<noteq> []"
    and "cid = conversation_id_or (q_conversationId d) (uuid4 w)"
    and "generate_content w (query_prompt a sess cid (strip (q_query d))) = Inr t"
  shows "history_of (fst (snd (query a w sess d))) cid =
           Some (query_history sess cid
                 @ [\<lparr>role = ''user'', content = strip (q_query d)\<rparr>,
                    \<lparr>role = ''assistant'', content = strip t\<rparr>])"
  using assms by (simp add: query_sent_prompt Let_def history_of_def)

lemma strip_examples:
  "strip '' hi '' = ''hi''" "strip '' hello '' = ''hello''" "strip '' fine '' = ''fine''"
  "strip ''sure'' = ''sure''" "strip ''first'' = ''first''" "strip ''second'' = ''second''"
  by code_simp+

section \<open>Retrieval\<close>

text \<open>
  Claim C1, with the bound on the number of records for datasets without repeated
  names. For every dataset and every query string, the name of every record that
  \<open>retrieve_relevant_info\<close> returns is among the top three of the similarity scores
  between the query embedding and the precomputed embeddings, and the returned
  records carry at most 3 course names and at most 3 instructor names; when the
  course names of the dataset are pairwise distinct at most 3 course records are
  returned, and likewise for the instructors.
\<close>

theorem retrieve_top3:
  fixes a :: "('e, 's::linorder) app"
  shows "(distinct (map course_name (courses a)) \<longrightarrow>
            length (fst (retrieve_relevant_info a q)) \<le> 3)
       \<and> (distinct (map instructor_name (instructors a)) \<longrightarrow>
            length (snd (retrieve_relevant_info a q)) \<le> 3)
       \<and> card (course_name ` set (fst (retrieve_relevant_info a q))) \<le> 3
       \<and> card (instructor_name ` set (snd (retrieve_relevant_info a q))) \<le> 3
       \<and> (\<forall>c\<in>set (fst (retrieve_relevant_info a q)).
            in_top3 (course_scores a q) (course_name c))
       \<and> (\<forall>i\<in>set (snd (retrieve_relevant_info a q)).
            in_top3 (instructor_scores a q) (instructor_name i))"
proof -
  have lc: "length (relevant_courses a q) \<le> 3"
    by (simp add: relevant_courses_def)
  have li: "length (relevant_instructors a q) \<le> 3"
    by (simp add: relevant_instructors_def)
  have "length (fst (retrieve_relevant_info a q)) \<le> 3"
    if "distinct (map course_name (courses a))"
    using length_filter_distinct_keys [OF that, of "relevant_courses a q"] lc
    by (simp add: retrieve_relevant_info_def)
  moreover have "length (snd (retrieve_relevant_info a q)) \<le> 3"
    if "distinct (map instructor_name (instructors a))"
    using length_filter_distinct_keys [OF that, of "relevant_instructors a q"] li
    by (simp add: retrieve_relevant_info_def)
  moreover have "card (course_name ` set (fst (retrieve_relevant_info a q))) \<le> 3"
  proof -
    have "card (course_name ` set (fst (retrieve_relevant_info a q)))
            \<le> card (set (relevant_courses a q))"
      by (rule card_mono) (auto simp: retrieve_relevant_info_def)
    also have "\<dots> \<le> length (relevant_courses a q)"
      by (rule card_length)
    finally show ?thesis using lc by simp
  qed
  moreover have "card (instructor_name ` set (snd (retrieve_relevant_info a q))) \<le> 3"
  proof -
    have "card (instructor_name ` set (snd (retrieve_relevant_info a q)))
            \<le> card (set (relevant_instructors a q))"
      by (rule card_mono) (auto simp: retrieve_relevant_info_def)
    also have "\<dots> \<le> length (relevant_instructors a q)"
      by (rule card_length)
    finally show ?thesis using li by simp
  qed
  moreover have "in_top3 (course_scores a q) (course_name c)"
    if "c \<in> set (fst (retrieve_relevant_info a q))" for c
    using that by (intro take3_in_top3) (simp add: retrieve_relevant_info_def relevant_courses_def)
  moreover have "in_top3 (instructor_scores a q) (instructor_name i)"
    if "i \<in> set (snd (retrieve_relevant_info a q))" for i
    using that
    by (intro take3_in_top3) (simp add: retrieve_relevant_info_def relevant_instructors_def)
  ultimately show ?thesis by blast
qed

text \<open>The theorem at the example dataset, whose five courses have distinct names.\<close>

theorem retrieve_top3_witness:
  "distinct (map course_name (courses example_app))
   \<and> distinct (map instructor_name (instructors example_app))
   \<and> length (fst (retrieve_relevant_info example_app ''cells'')) \<le> 3
   \<and> length (snd (retrieve_relevant_info example_app ''cells'')) \<le> 3
   \<and> hd (courses example_app) \<in> set (fst (retrieve_relevant_info example_app ''cells''))
   \<and> in_top3 (course_scores example_app ''cells'') (course_name (hd (courses example_app)))"
proof -
  have h1: "distinct (map course_name (courses example_app))"
    by code_simp
  have h2: "distinct (map instructor_name (instructors example_app))"
    by code_simp
  have h3: "hd (courses example_app) \<in> set (fst (retrieve_relevant_info example_app ''cells''))"
    by code_simp
  from retrieve_top3 [of example_app "''cells''"] h1 h2 h3 show ?thesis
    by blast
qed

text \<open>
  Claim C1 as stated, for every dataset, fails: the records are selected by name, so a
  dataset with four course records under one name gets all four back.
\<close>

theorem retrieve_duplicate_names_counterexample:
  "length (fst (retrieve_relevant_info duplicate_app ''x'')) = 4
   \<and> \<not> length (fst (retrieve_relevant_info duplicate_app ''x'')) \<le> 3"
  by code_simp

text \<open>
  Claim C5, as the code has it. Among the entries of the ranking with equal similarity,
  the one with the greater name comes first: the sort compares whole
  \<open>(similarity, name)\<close> pairs, the names of a dictionary are distinct, and so the
  ranking is the same for every insertion order of the same entries.
\<close>

theorem ranking_ties_by_name:
  fixes a :: "('e, 's::linorder) app"
  assumes "sc = course_scores a q \<or> sc = instructor_scores a q"
    and "i < j" and "j < length sc"
    and "fst (sorted_reverse sc ! i) = fst (sorted_reverse sc ! j)"
  shows "snd (sorted_reverse sc ! j) < snd (sorted_reverse sc ! i)
       \<and> (\<forall>sc'. mset sc' = mset sc \<longrightarrow> sorted_reverse sc' = sorted_reverse sc)"
proof -
  from assms(1) have "distinct (map snd sc)"
  proof
    assume "sc = course_scores a q"
    then show ?thesis by (simp add: distinct_course_names)
  next
    assume "sc = instructor_scores a q"
    then show ?thesis by (simp add: distinct_instructor_names)
  qed
  then have "snd (sorted_reverse sc ! j) < snd (sorted_reverse sc ! i)"
    using assms(2-4) by (rule ties_by_name_general)
  moreover have "sorted_reverse sc' = sorted_reverse sc" if "mset sc' = mset sc" for sc'
    using that by (rule sorted_reverse_mset_eq)
  ultimately show ?thesis
    by blast
qed

text \<open>The theorem at four courses with tied similarities, for the first two ranks.\<close>

theorem ranking_ties_by_name_witness:
  "(course_scores tied_app ''q'' = course_scores tied_app ''q''
      \<or> course_scores tied_app ''q'' = instructor_scores tied_app ''q'')
   \<and> (0::nat) < 1 \<and> 1 < length (course_scores tied_app ''q'')
   \<and> fst (sorted_reverse (course_scores tied_app ''q'') ! 0) =
       fst (sorted_reverse (course_scores tied_app ''q'') ! 1)
   \<and> snd (sorted_reverse (course_scores tied_app ''q'') ! 1) <
       snd (sorted_reverse (course_scores tied_app ''q'') ! 0)"
proof -
  let ?sc = "course_scores tied_app ''q''"
  have h1: "?sc = course_scores tied_app ''q'' \<or> ?sc = instructor_scores tied_app ''q''"
    by simp
  have h2: "(0::nat) < 1" by simp
  have h3: "1 < length ?sc"
    by code_simp
  have h4: "fst (sorted_reverse ?sc ! 0) = fst (sorted_reverse ?sc ! 1)"
    by (simp add: tied_ranking)
  from ranking_ties_by_name [OF h1 h2 h3 h4] h1 h2 h3 h4 show ?thesis
    by blast
qed

text \<open>
  Claim C5 as stated fails: four courses inserted as A, B, C, D with equal similarities
  are ranked D, C, B, A, not in insertion order, and the records returned are B, C, D
  where insertion order would have selected A, B, C.
\<close>

theorem ranking_ties_counterexample:
  "sorted_reverse (course_scores tied_app ''q'') =
     [(0, ''D''), (0, ''C''), (0, ''B''), (0, ''A'')]
   \<and> stable_score_ranking (course_scores tied_app ''q'') =
     [(0, ''A''), (0, ''B''), (0, ''C''), (0, ''D'')]
   \<and> sorted_reverse (course_scores tied_app ''q'') \<noteq>
       stable_score_ranking (course_scores tied_app ''q'')
   \<and> map course_name (fst (retrieve_relevant_info tied_app ''q'')) = [''B'', ''C'', ''D'']"
  by code_simp

text \<open>
  Claim C9. \<open>retrieve_relevant_info\<close> returns the matched courses and the matched
  instructors in the order of the dataset: each result is the dataset filtered by
  membership of the name in the selected names, hence a subsequence of the dataset,
  whatever the order of the ranking.
\<close>

theorem retrieve_dataset_order:
  fixes a :: "('e, 's::linorder) app"
  shows "subseq (fst (retrieve_relevant_info a q)) (courses a)
       \<and> subseq (snd (retrieve_relevant_info a q)) (instructors a)
       \<and> fst (retrieve_relevant_info a q) =
           filter (\<lambda>c. course_name c \<in> set (relevant_courses a q)) (courses a)
       \<and> snd (retrieve_relevant_info a q) =
           filter (\<lambda>i. instructor_name i \<in> set (relevant_instructors a q)) (instructors a)"
  by (simp add: retrieve_relevant_info_def)

text \<open>
  At the example dataset the ranking for the query \<open>cells\<close> is Biology, Chemistry,
  Algebra, and the records come back as Algebra, Biology, Chemistry.
\<close>

theorem retrieve_dataset_order_witness:
  "subseq (fst (retrieve_relevant_info example_app ''cells'')) (courses example_app)
   \<and> relevant_courses example_app ''cells'' = [''Biology'', ''Chemistry'', ''Algebra'']
   \<and> map course_name (fst (retrieve_relevant_info example_app ''cells'')) =
       [''Algebra'', ''Biology'', ''Chemistry'']"
proof -
  have "relevant_courses example_app ''cells'' = [''Biology'', ''Chemistry'', ''Algebra'']"
    by code_simp
  moreover have "map course_name (fst (retrieve_relevant_info example_app ''cells'')) =
                   [''Algebra'', ''Biology'', ''Chemistry'']"
    by code_simp
  ultimately show ?thesis
    using retrieve_dataset_order [of example_app "''cells''"] by blast
qed

section \<open>Prompt construction\<close>

text \<open>
  Claim C6. For every question, context block and conversation history,
  \<open>build_prompt_with_context\<close> returns one string made of the context block, then
  every message of the history but the first, each as a line \<open>role: content\<close> in
  history order, then the current question, between fixed pieces of text. The first
  message of the history contributes nothing: replacing it leaves the prompt unchanged.
\<close>

theorem build_prompt_structure:
  "build_prompt_with_context question context history =
     NL @ ''    Context information:'' @ NL @ ''    '' @ context @ NL @ NL
     @ ''    Conversation history:'' @ NL @ ''    ''
     @ concat (map (\<lambda>msg. role msg @ '': '' @ content msg @ NL) (drop 1 history))
     @ NL @ ''    Current question: '' @ question @ NL @ ''    '' @ NL
     @ ''    Please provide a helpful response based on the context and conversation history.''
     @ NL @ ''    ''
   \<and> build_prompt_with_context question context (m # ms) =
       build_prompt_with_context question context (m' # ms)"
  by (simp add: build_prompt_with_context_def foldl_append_concat)

text \<open>
  At a history of three messages: the system message is left out, the two others are
  rendered in order.
\<close>

theorem build_prompt_structure_witness:
  "build_prompt_with_context ''why?'' ''ctx''
     [system_message, \<lparr>role = ''user'', content = ''hi''\<rparr>,
      \<lparr>role = ''assistant'', content = ''hello''\<rparr>] =
     NL @ ''    Context information:'' @ NL @ ''    ctx'' @ NL @ NL
     @ ''    Conversation history:'' @ NL @ ''    user: hi'' @ NL @ ''assistant: hello'' @ NL
     @ NL @ ''    Current question: why?'' @ NL @ ''    '' @ NL
     @ ''    Please provide a helpful response based on the context and conversation history.''
     @ NL @ ''    ''"
  using build_prompt_structure
    [of "''why?''" "''ctx''"
        "[system_message, \<lparr>role = ''user'', content = ''hi''\<rparr>,
          \<lparr>role = ''assistant'', content = ''hello''\<rparr>]"]
  by simp

section \<open>The query endpoint\<close>

text \<open>
  Claim C4. When the \<open>query\<close> field is empty or holds only whitespace, the endpoint
  returns exactly \<open>{"response": "Please enter a valid question."}\<close> with status 200,
  calls neither the retrieval step nor the generative model, and leaves the session,
  hence every conversation history, as it was.
\<close>

theorem query_blank_question:
  assumes "\<forall>c\<in>set (q_query data). isspace c"
  shows "query a w sess data =
           (\<lparr>status_code = 200, body = [(''response'', ''Please enter a valid question.'')]\<rparr>,
            sess, [])"
  using assms by (simp add: query_def strip_empty_iff ok_def)

theorem query_blank_question_witness:
  "query example_app answering_io (session_after_first (Some ''c1''))
     \<lparr>q_query = [CHR 0x20, CHR 0x09, CHR 0x0A], q_conversationId = Some ''c1''\<rparr> =
   (\<lparr>status_code = 200, body = [(''response'', ''Please enter a valid question.'')]\<rparr>,
    session_after_first (Some ''c1''), [])"
proof -
  have h: "\<forall>c\<in>set (q_query \<lparr>q_query = [CHR 0x20, CHR 0x09, CHR 0x0A],
                                q_conversationId = Some ''c1''\<rparr>). isspace c"
    by (simp add: isspace_def)
  from query_blank_question [OF h] show ?thesis .
qed

text \<open>
  Claim C2. When the call to the generative model raises an exception, the endpoint
  still answers with status 200 and a response string that carries the error text, and
  the history of the conversation gains the user message only; the other
  conversations and the translations are untouched.
\<close>

theorem query_generation_failure:
  assumes "strip (q_query data) \<noteq> []"
    and "cid = conversation_id_or (q_conversationId data) (uuid4 w)"
    and "generate_content w (query_prompt a sess cid (strip (q_query data))) = Inl e"
    and "sess' = fst (snd (query a w sess data))"
  shows "fst (query a w sess data) =
           \<lparr>status_code = 200,
            body = [(''response'',
                     ''I couldn't process that request. Please try again. (Error: ''
                     @ e @ '')'')]\<rparr>
       \<and> snd (snd (query a w sess data)) =
           [Retrieve (strip (q_query data)),
            Generate (query_prompt a sess cid (strip (q_query data)))]
       \<and> history_of sess' cid =
           Some (query_history sess cid @ [\<lparr>role = ''user'', content = strip (q_query data)\<rparr>])
       \<and> (\<forall>k. k \<noteq> cid \<longrightarrow> history_of sess' k = history_of sess k)
       \<and> session_translations sess' = session_translations sess"
  using assms
  by (simp add: query_sent_prompt Let_def ok_def history_of_def split: option.splits)

theorem query_generation_failure_witness:
  "strip (q_query \<lparr>q_query = '' hi '', q_conversationId = None\<rparr>) \<noteq> []
   \<and> ''id-1'' = conversation_id_or
                  (q_conversationId \<lparr>q_query = '' hi '', q_conversationId = None\<rparr>)
                  (uuid4 failing_io)
   \<and> generate_content failing_io (query_prompt example_app empty_session ''id-1'' ''hi'')
       = Inl ''quota''
   \<and> body (fst (query example_app failing_io empty_session
                   \<lparr>q_query = '' hi '', q_conversationId = None\<rparr>)) =
       [(''response'', ''I couldn't process that request. Please try again. (Error: quota)'')]
   \<and> history_of (fst (snd (query example_app failing_io empty_session
                              \<lparr>q_query = '' hi '', q_conversationId = None\<rparr>))) ''id-1'' =
       Some [system_message, \<lparr>role = ''user'', content = ''hi''\<rparr>]"
proof -
  let ?d = "\<lparr>q_query = '' hi '', q_conversationId = None\<rparr>"
  have h1: "strip (q_query ?d) \<noteq> []"
    by (simp add: strip_examples)
  have h2: "''id-1'' = conversation_id_or (q_conversationId ?d) (uuid4 failing_io)"
    by (simp add: conversation_id_or_def failing_io_def)
  have h3: "generate_content failing_io
              (query_prompt example_app empty_session ''id-1'' (strip (q_query ?d))) = Inl ''quota''"
    by (simp add: failing_io_def)
  have n: "query_history empty_session ''id-1'' = [system_message]"
    by (simp add: query_history_def history_of_def empty_session_def)
  from query_generation_failure [OF h1 h2 h3 refl] h1 h2 h3 n show ?thesis
    by (simp add: strip_examples)
qed

text \<open>
  Claim C3, for a non-empty conversation identifier. Two calls with the same non-empty
  \<open>conversationId\<close>, both with questions that are not blank and both with successful
  generation, append to the history the conversation started from (the system message
  alone when it is new) the first user question, the first assistant response, the
  second user question and the second assistant response, in this order.
\<close>

theorem query_twice_same_conversation:
  assumes "cid \<noteq> []"
    and "q_conversationId d1 = Some cid" and "q_conversationId d2 = Some cid"
    and "strip (q_query d1) \<noteq> []" and "strip (q_query d2) \<noteq> []"
    and "sess1 = fst (snd (query a w1 sess d1))"
    and "sess2 = fst (snd (query a w2 sess1 d2))"
    and "generate_content w1 (query_prompt a sess cid (strip (q_query d1))) = Inr t1"
    and "generate_content w2 (query_prompt a sess1 cid (strip (q_query d2))) = Inr t2"
  shows "history_of sess2 cid =
           Some (query_history sess cid
                 @ [\<lparr>role = ''user'', content = strip (q_query d1)\<rparr>,
                    \<lparr>role = ''assistant'', content = strip t1\<rparr>,
                    \<lparr>role = ''user'', content = strip (q_query d2)\<rparr>,
                    \<lparr>role = ''assistant'', content = strip t2\<rparr>])
       \<and> (history_of sess cid = None \<longrightarrow>
            history_of sess2 cid =
              Some [system_message,
                    \<lparr>role = ''user'', content = strip (q_query d1)\<rparr>,
                    \<lparr>role = ''assistant'', content = strip t1\<rparr>,
                    \<lparr>role = ''user'', content = strip (q_query d2)\<rparr>,
                    \<lparr>role = ''assistant'', content = strip t2\<rparr>])"
proof -
  have c1: "cid = conversation_id_or (q_conversationId d1) (uuid4 w1)"
    using assms(1,2) by (simp add: conversation_id_or_Some)
  have c2: "cid = conversation_id_or (q_conversationId d2) (uuid4 w2)"
    using assms(1,3) by (simp add: conversation_id_or_Some)
  have h1: "history_of sess1 cid =
              Some (query_history sess cid
                    @ [\<lparr>role = ''user'', content = strip (q_query d1)\<rparr>,
                       \<lparr>role = ''assistant'', content = strip t1\<rparr>])"
    unfolding assms(6) using assms(4) c1 assms(8) by (rule history_after_success)
  have h2: "history_of sess2 cid =
              Some (query_history sess1 cid
                    @ [\<lparr>role = ''user'', content = strip (q_query d2)\<rparr>,
                       \<lparr>role = ''assistant'', content = strip t2\<rparr>])"
    unfolding assms(7) using assms(5) c2 assms(9) by (rule history_after_success)
  have "query_history sess1 cid =
          query_history sess cid
          @ [\<lparr>role = ''user'', content = strip (q_query d1)\<rparr>,
             \<lparr>role = ''assistant'', content = strip t1\<rparr>]"
    by (simp add: query_history_def h1)
  with h2 show ?thesis
    by (simp add: query_history_def)
qed

theorem query_twice_same_conversation_witness:
  "''c1'' \<noteq> []
   \<and> q_conversationId (first_request (Some ''c1'')) = Some ''c1''
   \<and> q_conversationId (second_request (Some ''c1'')) = Some ''c1''
   \<and> strip (q_query (first_request (Some ''c1''))) \<noteq> []
   \<and> strip (q_query (second_request (Some ''c1''))) \<noteq> []
   \<and> generate_content answering_io
        (query_prompt example_app empty_session ''c1''
           (strip (q_query (first_request (Some ''c1''))))) = Inr '' fine ''
   \<and> generate_content second_io
        (query_prompt example_app (session_after_first (Some ''c1'')) ''c1''
           (strip (q_query (second_request (Some ''c1''))))) = Inr ''sure''
   \<and> history_of (session_after_second (Some ''c1'')) ''c1'' =
       Some [system_message,
             \<lparr>role = ''user'', content = ''first''\<rparr>,
             \<lparr>role = ''assistant'', content = ''fine''\<rparr>,
             \<lparr>role = ''user'', content = ''second''\<rparr>,
             \<lparr>role = ''assistant'', content = ''sure''\<rparr>]"
proof -
  let ?d1 = "first_request (Some ''c1'')" and ?d2 = "second_request (Some ''c1'')"
  have a1: "''c1'' \<noteq> []" by simp
  have a2: "q_conversationId ?d1 = Some ''c1''" by (simp add: first_request_def)
  have a3: "q_conversationId ?d2 = Some ''c1''" by (simp add: second_request_def)
  have s1: "strip (q_query ?d1) = ''first''"
    by (simp add: first_request_def strip_examples)
  have s2: "strip (q_query ?d2) = ''second''"
    by (simp add: second_request_def strip_examples)
  have a4: "strip (q_query ?d1) \<noteq> []" by (simp add: s1)
  have a5: "strip (q_query ?d2) \<noteq> []" by (simp add: s2)
  have a6: "session_after_first (Some ''c1'') =
              fst (snd (query example_app answering_io empty_session ?d1))"
    by (simp add: session_after_first_def)
  have a7: "session_after_second (Some ''c1'') =
              fst (snd (query example_app second_io (session_after_first (Some ''c1'')) ?d2))"
    by (simp add: session_after_second_def)
  have a8: "generate_content answering_io
              (query_prompt example_app empty_session ''c1'' (strip (q_query ?d1))) = Inr '' fine ''"
    by (simp add: answering_io_def)
  have a9: "generate_content second_io
              (query_prompt example_app (session_after_first (Some ''c1'')) ''c1''
                 (strip (q_query ?d2))) = Inr ''sure''"
    by (simp add: second_io_def)
  have n: "history_of empty_session ''c1'' = None"
    by (simp add: history_of_def empty_session_def)
  from query_twice_same_conversation [OF a1 a2 a3 a4 a5 a6 a7 a8 a9] n
  have "history_of (session_after_second (Some ''c1'')) ''c1'' =
          Some [system_message,
                \<lparr>role = ''user'', content = ''first''\<rparr>,
                \<lparr>role = ''assistant'', content = ''fine''\<rparr>,
                \<lparr>role = ''user'', content = ''second''\<rparr>,
                \<lparr>role = ''assistant'', content = ''sure''\<rparr>]"
    by (simp add: s1 s2 strip_examples query_history_def)
  with a1 a2 a3 a4 a5 a8 a9 show ?thesis
    by (intro conjI)
qed

text \<open>
  Claim C3 as stated, for every \<open>conversationId\<close>, fails at the empty string: it is
  falsy, so each call draws an identifier of its own, and after two calls no history
  is stored under the empty identifier while the two drawn identifiers hold one
  exchange each.
\<close>

theorem query_twice_empty_id_counterexample:
  "history_of (session_after_second (Some '''')) '''' = None
   \<and> history_of (session_after_second (Some '''')) ''id-1'' =
       Some [system_message,
             \<lparr>role = ''user'', content = ''first''\<rparr>,
             \<lparr>role = ''assistant'', content = ''fine''\<rparr>]
   \<and> history_of (session_after_second (Some '''')) ''id-2'' =
       Some [system_message,
             \<lparr>role = ''user'', content = ''second''\<rparr>,
             \<lparr>role = ''assistant'', content = ''sure''\<rparr>]"
  by code_simp

section \<open>The translate endpoint\<close>

text \<open>
  Claim C7. When the \<open>text\<close> field is empty or holds only whitespace, the endpoint
  returns exactly \<open>{"translation": "No text to translate"}\<close> with status 200 and does
  not call the generative model.
\<close>

theorem translate_blank_text:
  assumes "\<forall>c\<in>set (t_text data). isspace c"
  shows "translate w sess data =
           (\<lparr>status_code = 200, body = [(''translation'', ''No text to translate'')]\<rparr>,
            sess, [])"
  using assms by (simp add: translate_def strip_empty_iff ok_def)

theorem translate_blank_text_witness:
  "translate answering_io empty_session
     \<lparr>t_text = [CHR 0x20, CHR 0xA0], t_target_lang = ''es'', t_conversationId = None\<rparr> =
   (\<lparr>status_code = 200, body = [(''translation'', ''No text to translate'')]\<rparr>,
    empty_session, [])"
proof -
  have h: "\<forall>c\<in>set (t_text \<lparr>t_text = [CHR 0x20, CHR 0xA0], t_target_lang = ''es'',
                               t_conversationId = None\<rparr>). isspace c"
    by (simp add: isspace_def)
  from translate_blank_text [OF h] show ?thesis .
qed

text \<open>
  Claim C8. When the text is not blank and the call to the generative model raises an
  exception, the endpoint answers with status 200 and a \<open>translation\<close> field that is
  the failure message followed by the text of the exception.
\<close>

theorem translate_generation_failure:
  assumes "strip (t_text data) \<noteq> []"
    and "generate_content w (translate_prompt (t_target_lang data) (strip (t_text data))) = Inl e"
  shows "translate w sess data =
           (\<lparr>status_code = 200, body = [(''translation'', ''Translation failed: '' @ e)]\<rparr>,
            sess,
            [Generate (translate_prompt (t_target_lang data) (strip (t_text data)))])"
  using assms by (simp add: translate_def ok_def)

theorem translate_generation_failure_witness:
  "strip (t_text \<lparr>t_text = '' hello '', t_target_lang = ''es'', t_conversationId = None\<rparr>) \<noteq> []
   \<and> generate_content failing_io (translate_prompt ''es'' ''hello'') = Inl ''quota''
   \<and> translate failing_io empty_session
        \<lparr>t_text = '' hello '', t_target_lang = ''es'', t_conversationId = None\<rparr> =
      (\<lparr>status_code = 200, body = [(''translation'', ''Translation failed: quota'')]\<rparr>,
       empty_session, [Generate (translate_prompt ''es'' ''hello'')])"
proof -
  let ?d = "\<lparr>t_text = '' hello '', t_target_lang = ''es'', t_conversationId = None\<rparr>"
  have h1: "strip (t_text ?d) \<noteq> []"
    by (simp add: strip_examples)
  have h2: "generate_content failing_io (translate_prompt (t_target_lang ?d) (strip (t_text ?d)))
            = Inl ''quota''"
    by (simp add: failing_io_def)
  from translate_generation_failure [OF h1 h2, of empty_session] h1 h2 show ?thesis
    by (simp add: strip_examples)
qed

text \<open>
  Claim C10. A translation record (original text, translation, target language) is
  appended to the list of the conversation when the call to the generative model
  succeeds, and only then: when the call fails the session is left as it was, and a
  session that changed comes from a text that is not blank and a call that succeeded.
\<close>

theorem translate_records_only_on_success:
  assumes "sess' = fst (snd (translate w sess data))"
    and "cid = conversation_id_or (t_conversationId data) (uuid4 w)"
    and "p = translate_prompt (t_target_lang data) (strip (t_text data))"
  shows "(\<forall>t. strip (t_text data) \<noteq> [] \<and> generate_content w p = Inr t \<longrightarrow>
            translations_of sess' cid =
              Some ((case translations_of sess cid of None \<Rightarrow> [] | Some l \<Rightarrow> l)
                    @ [\<lparr>original = strip (t_text data), translation = strip t,
                        language = t_target_lang data\<rparr>])
            \<and> (\<forall>k. k \<noteq> cid \<longrightarrow> translations_of sess' k = translations_of sess k)
            \<and> session_conversations sess' = session_conversations sess)
       \<and> ((\<exists>e. generate_content w p = Inl e) \<longrightarrow> sess' = sess)
       \<and> (sess' \<noteq> sess \<longrightarrow> strip (t_text data) \<noteq> [] \<and> (\<exists>t. generate_content w p = Inr t))"
  using assms
  by (auto simp: translate_def Let_def translations_of_def split: option.splits sum.splits if_splits)

theorem translate_records_only_on_success_witness:
  "translations_of
     (fst (snd (translate answering_io empty_session
                  \<lparr>t_text = '' hello '', t_target_lang = ''es'', t_conversationId = None\<rparr>)))
     ''id-1'' =
     Some [\<lparr>original = ''hello'', translation = ''fine'', language = ''es''\<rparr>]
   \<and> fst (snd (translate failing_io empty_session
                 \<lparr>t_text = '' hello '', t_target_lang = ''es'', t_conversationId = None\<rparr>)) =
       empty_session"
proof -
  let ?d = "\<lparr>t_text = '' hello '', t_target_lang = ''es'', t_conversationId = None\<rparr>"
  have c1: "''id-1'' = conversation_id_or (t_conversationId ?d) (uuid4 answering_io)"
    by (simp add: conversation_id_or_def answering_io_def)
  have c2: "''id-1'' = conversation_id_or (t_conversationId ?d) (uuid4 failing_io)"
    by (simp add: conversation_id_or_def failing_io_def)
  have g1: "generate_content answering_io
              (translate_prompt (t_target_lang ?d) (strip (t_text ?d))) = Inr '' fine ''"
    by (simp add: answering_io_def)
  have g2: "generate_content failing_io
              (translate_prompt (t_target_lang ?d) (strip (t_text ?d))) = Inl ''quota''"
    by (simp add: failing_io_def)
  have n: "translations_of empty_session ''id-1'' = None"
    by (simp add: translations_of_def empty_session_def)
  have s: "strip (t_text ?d) \<noteq> []"
    by (simp add: strip_examples)
  from translate_records_only_on_success [OF refl c1 refl, of empty_session] g1 s n
  have "translations_of (fst (snd (translate answering_io empty_session ?d))) ''id-1'' =
          Some [\<lparr>original = ''hello'', translation = ''fine'', language = ''es''\<rparr>]"
    by (simp add: strip_examples)
  moreover from translate_records_only_on_success [OF refl c2 refl, of empty_session] g2
  have "fst (snd (translate failing_io empty_session ?d)) = empty_session"
    by blast
  ultimately show ?thesis
    by (intro conjI)
qed


end
